theory Spec2Isabelle
  imports Main "HOL-Library.AList"
begin

section \<open>Python values and dictionaries\<close>

text \<open>
  The values that travel through the prompt step are JSON-like Python values. A Python
  \<^verbatim>\<open>dict\<close> keeps its keys in insertion order: an association list, where an
  assignment \<^verbatim>\<open>d[k] = v\<close> replaces the value of a present key in place and appends an
  absent one (\<^const>\<open>AList.update\<close>), and \<^verbatim>\<open>d.pop(k)\<close> removes the key
  (\<^const>\<open>AList.delete\<close>).
\<close>

datatype json =
    JNull
  | JBool bool
  | JInt int
  | JStr string
  | JList "json list"
  | JObj "(string \<times> json) list"

type_synonym dict = "(string \<times> json) list"

text \<open>Python's truth value of an object, as \<^verbatim>\<open>if x\<close>, \<^verbatim>\<open>not x\<close> and \<^verbatim>\<open>x or y\<close> test it.\<close>

fun truthy :: "json \<Rightarrow> bool" where
  "truthy JNull = False"
| "truthy (JBool b) = b"
| "truthy (JInt i) = (i \<noteq> 0)"
| "truthy (JStr s) = (s \<noteq> [])"
| "truthy (JList xs) = (xs \<noteq> [])"
| "truthy (JObj d) = (d \<noteq> [])"

text \<open>\<^verbatim>\<open>d.get(k)\<close>: the value of the key, or \<^verbatim>\<open>None\<close>.\<close>

definition dict_get :: "dict \<Rightarrow> string \<Rightarrow> json" where
  "dict_get d k = (case map_of d k of None \<Rightarrow> JNull | Some v \<Rightarrow> v)"

text \<open>\<^verbatim>\<open>d.update(e)\<close> and the display \<^verbatim>\<open>{**d, **e}\<close>: the items of \<open>e\<close> are assigned in order.\<close>

definition dict_update :: "('k \<times> 'v) list \<Rightarrow> ('k \<times> 'v) list \<Rightarrow> ('k \<times> 'v) list" where
  "dict_update d e = fold (\<lambda>(k, v). AList.update k v) e d"

definition opt_json :: "string option \<Rightarrow> json" where
  "opt_json s = (case s of None \<Rightarrow> JNull | Some t \<Rightarrow> JStr t)"

text \<open>The exceptions the code raises, with the message of the source where it gives one.\<close>

datatype error =
    ApplicationError string
  | AssertionError string
  | AttributeError string
  | KeyError string
  | SyntaxError string
  | TypeError string
  | ValidationError string
  | ValueError string
  | Raised string

section \<open>Transitions (autogen/Executions.py)\<close>

text \<open>
  The field \<^verbatim>\<open>type\<close> of \<^verbatim>\<open>Transition\<close> is annotated
  \<^verbatim>\<open>Literal["finish", "wait", "error", "step", "cancelled"]\<close>: constructing the model
  validates the given string against these literals, in this order.
\<close>

definition Transition_type_Literal :: "string list" where
  "Transition_type_Literal = [''finish'', ''wait'', ''error'', ''step'', ''cancelled'']"

record transition =
  transition_type :: string
  transition_execution_id :: string
  transition_output :: dict
  transition_current :: "json list"
  transition_next :: "json list option"
  transition_id :: string
  transition_metadata :: "dict option"
  transition_created_at :: int
  transition_updated_at :: int

definition validate_Literal :: "string list \<Rightarrow> string \<Rightarrow> error + string" where
  "validate_Literal allowed v =
     (if v \<in> set allowed then Inr v
      else Inl (ValidationError ''Input should be one of the literals''))"

definition Transition ::
  "string \<Rightarrow> string \<Rightarrow> dict \<Rightarrow> json list \<Rightarrow> json list option \<Rightarrow> string \<Rightarrow> dict option \<Rightarrow>
   int \<Rightarrow> int \<Rightarrow> error + transition" where
  "Transition ty execution_id output current nxt ident metadata created_at updated_at =
     (case validate_Literal Transition_type_Literal ty of
        Inl e \<Rightarrow> Inl e
      | Inr t \<Rightarrow>
          Inr \<lparr>transition_type = t, transition_execution_id = execution_id,
               transition_output = output, transition_current = current,
               transition_next = nxt, transition_id = ident,
               transition_metadata = metadata, transition_created_at = created_at,
               transition_updated_at = updated_at\<rparr>)"

section \<open>Tools (autogen/Tools.py as used, autogen/openapi_model.py)\<close>

text \<open>
  The class \<^verbatim>\<open>Tool\<close> is declared in autogen/Tools.py; the code at hand reads the
  attributes below. Each variant is \<^verbatim>\<open>None\<close> or a model instance, and a model instance
  is true in Python, so \<^verbatim>\<open>if self.function\<close> asks whether the variant is populated.
\<close>

record function_def =
  function_parameters :: "json option"

record integration_def =
  integration_provider :: string
  integration_method :: "string option"

record system_def =
  system_resource :: string
  system_operation :: string

record api_call_def =
  api_call_schema :: json

record computer_def =
  display_width_px :: int
  display_height_px :: int
  display_number :: int

record tool =
  tool_name :: string
  tool_description :: "string option"
  tool_function :: "function_def option"
  tool_integration :: "integration_def option"
  tool_system :: "system_def option"
  tool_api_call :: "api_call_def option"
  tool_computer_20241022 :: "computer_def option"
  tool_text_editor_20241022 :: "unit option"
  tool_bash_20241022 :: "unit option"

text \<open>\<^verbatim>\<open>type_property\<close>: a chain of conditional expressions, \<^verbatim>\<open>None\<close> at its end.\<close>

definition type_property :: "tool \<Rightarrow> string option" where
  "type_property self =
     (if tool_function self \<noteq> None then Some ''function''
      else if tool_integration self \<noteq> None then Some ''integration''
      else if tool_system self \<noteq> None then Some ''system''
      else if tool_api_call self \<noteq> None then Some ''api_call''
      else None)"


section \<open>Formatting tools (activities/task_steps/prompt_step.py)\<close>

text \<open>
  The values of \<^verbatim>\<open>providers_map\<close> are the integration classes of autogen/Tools.py,
  or for browserbase a second dictionary from method to class.
\<close>

datatype integration_class =
    BraveIntegrationDef
  | DummyIntegrationDef
  | EmailIntegrationDef
  | SpiderIntegrationDef
  | WikipediaIntegrationDef
  | WeatherIntegrationDef
  | BrowserbaseContextIntegrationDef
  | BrowserbaseExtensionIntegrationDef
  | BrowserbaseListSessionsIntegrationDef
  | BrowserbaseCreateSessionIntegrationDef
  | BrowserbaseGetSessionIntegrationDef
  | BrowserbaseCompleteSessionIntegrationDef
  | BrowserbaseGetSessionLiveUrlsIntegrationDef
  | BrowserbaseGetSessionConnectUrlIntegrationDef
  | RemoteBrowserIntegrationDef

datatype provider_entry =
    Def integration_class
  | Methods "(string \<times> integration_class) list"

definition providers_map :: "(string \<times> provider_entry) list" where
  "providers_map =
     [(''brave'', Def BraveIntegrationDef),
      (''dummy'', Def DummyIntegrationDef),
      (''email'', Def EmailIntegrationDef),
      (''spider'', Def SpiderIntegrationDef),
      (''wikipedia'', Def WikipediaIntegrationDef),
      (''weather'', Def WeatherIntegrationDef),
      (''browserbase'', Methods
         [(''create_context'', BrowserbaseContextIntegrationDef),
          (''install_extension_from_github'', BrowserbaseExtensionIntegrationDef),
          (''list_sessions'', BrowserbaseListSessionsIntegrationDef),
          (''create_session'', BrowserbaseCreateSessionIntegrationDef),
          (''get_session'', BrowserbaseGetSessionIntegrationDef),
          (''complete_session'', BrowserbaseCompleteSessionIntegrationDef),
          (''get_live_urls'', BrowserbaseGetSessionLiveUrlsIntegrationDef),
          (''get_connect_url'', BrowserbaseGetSessionConnectUrlIntegrationDef)]),
      (''remote_browser'', Def RemoteBrowserIntegrationDef)]"

text \<open>
  What \<^verbatim>\<open>integration.arguments\<close> can hold, as \<^verbatim>\<open>_get_integration_arguments\<close>
  tells the cases apart: \<^verbatim>\<open>None\<close>, a model instance with its \<^verbatim>\<open>model_fields\<close>, a
  dictionary, or another object.
\<close>

record field_info =
  field_annotation :: json
  field_is_required :: bool

datatype arguments =
    NoArguments
  | ModelArguments "(string \<times> field_info) list"
  | DictArguments dict
  | OtherArguments bool

fun arguments_truthy :: "arguments \<Rightarrow> bool" where
  "arguments_truthy NoArguments = False"
| "arguments_truthy (ModelArguments fs) = True"
| "arguments_truthy (DictArguments d) = (d \<noteq> [])"
| "arguments_truthy (OtherArguments b) = b"

section \<open>Model responses (litellm, anthropic)\<close>

record function_call =
  function_name :: "string option"
  function_arguments :: json

record tool_call =
  call_id :: "string option"
  call_type :: string
  call_function :: function_call

text \<open>
  A dumped tool call is a dictionary. The rewriting of the prompt step assigns it the key
  \<^verbatim>\<open>original_tool.type\<close>, which is \<^verbatim>\<open>None\<close> where \<^verbatim>\<open>type_property\<close> falls through:
  the keys are strings or \<^verbatim>\<open>None\<close>.
\<close>

type_synonym call_dict = "(string option \<times> json) list"

record 'c message =
  message_role :: string
  message_content :: "string option"
  message_tool_calls :: "'c list option"

record 'c choices =
  choices_message :: "'c message"
  choices_finish_reason :: string

record 'c model_response =
  response_id :: string
  response_choices :: "'c choices list"
  response_created :: int
  response_model :: string
  response_object :: string

datatype content_block =
    TextBlock string
  | ToolUseBlock string string json

record beta_message =
  claude_id :: string
  claude_content :: "content_block list"
  claude_stop_reason :: "string option"
  claude_model :: string

record claude_request =
  request_api_key :: string
  request_model :: string
  request_messages :: "json list"
  request_tools :: "json list"
  request_max_tokens :: int
  request_betas :: "string list"

section \<open>The step context and the collaborators\<close>

record agent =
  agent_model :: "string option"
  agent_default_settings :: "dict option"

text \<open>
  \<open>step_fields_set\<close> is \<^verbatim>\<open>current_step.model_dump(exclude_unset=True)\<close> before the
  excluded keys are dropped; \<open>step_prompt\<close> is \<^verbatim>\<open>model_dump()["prompt"]\<close>.
\<close>

record prompt_step_def =
  step_prompt :: json
  step_unwrap :: bool
  step_disable_cache :: bool
  step_fields_set :: dict

record step_context =
  context_current_step :: prompt_step_def
  context_agent :: agent
  context_tools :: "tool list"
  context_data :: dict

text \<open>
  What the prompt step calls and does not define: the attribute \<^verbatim>\<open>type\<close> of a tool
  (\<^verbatim>\<open>Tool\<close> is declared elsewhere; openapi_model.py assigns \<^verbatim>\<open>type_property\<close> to
  \<^verbatim>\<open>Tool.type\<close>), the schema reflected from a system handler, the \<^verbatim>\<open>arguments\<close> of an
  integration class, the expression evaluator, the template renderer, the two model
  backends, the settings of the environment and the clock.
\<close>

record env =
  env_tool_type :: "tool \<Rightarrow> string option"
  env_system_jsonschema :: "system_def option \<Rightarrow> error + dict"
  env_class_arguments :: "integration_class \<Rightarrow> arguments"
  env_base_evaluate :: "string \<Rightarrow> dict \<Rightarrow> error + json"
  env_render_template :: "json list \<Rightarrow> dict \<Rightarrow> string list \<Rightarrow> error + json list"
  env_anthropic_create :: "claude_request \<Rightarrow> error + beta_message"
  env_acompletion :: "dict \<Rightarrow> dict \<Rightarrow> error + tool_call model_response"
  env_debug :: bool
  env_anthropic_api_key :: string
  env_now :: int

datatype step_output =
    Content "string option"
  | Response "call_dict model_response"

record step_outcome =
  outcome_output :: step_output
  outcome_next :: "json option"

text \<open>A comprehension or loop whose body can raise stops at the first exception.\<close>

fun map_result :: "('a \<Rightarrow> error + 'b) \<Rightarrow> 'a list \<Rightarrow> error + 'b list" where
  "map_result f [] = Inr []"
| "map_result f (x # xs) =
     (case f x of
        Inl e \<Rightarrow> Inl e
      | Inr y \<Rightarrow> (case map_result f xs of Inl e \<Rightarrow> Inl e | Inr ys \<Rightarrow> Inr (y # ys)))"

subsection \<open>\<^verbatim>\<open>_get_integration_arguments\<close>\<close>

definition empty_properties :: dict where
  "empty_properties =
     [(''type'', JStr ''object''), (''properties'', JObj []), (''required'', JList [])]"

definition model_properties :: "(string \<times> field_info) list \<Rightarrow> dict" where
  "model_properties fs =
     [(''type'', JStr ''object''),
      (''properties'',
         JObj (fold
           (\<lambda>(fld_name, fld_annotation).
              AList.update fld_name
                (JObj [(''type'', field_annotation fld_annotation),
                       (''description'', JStr fld_name)]))
           fs [])),
      (''required'', JList (map (JStr \<circ> fst) (filter (field_is_required \<circ> snd) fs)))]"

definition get_integration_arguments :: "env \<Rightarrow> tool \<Rightarrow> error + dict" where
  "get_integration_arguments env tool =
     (case tool_integration tool of
        None \<Rightarrow> Inl (AttributeError ''NoneType object has no attribute provider'')
      | Some i \<Rightarrow>
          (let integration =
                 (case map_of providers_map (integration_provider i) of
                    None \<Rightarrow> None
                  | Some (Def c) \<Rightarrow> Some c
                  | Some (Methods ms) \<Rightarrow>
                      (case integration_method i of
                         None \<Rightarrow> None
                       | Some m \<Rightarrow> map_of ms m))
           in case integration of
                None \<Rightarrow> Inl (AttributeError ''NoneType object has no attribute arguments'')
              | Some c \<Rightarrow>
                  (let arguments = env_class_arguments env c
                   in if \<not> arguments_truthy arguments then Inr empty_properties
                      else (case arguments of
                              ModelArguments fs \<Rightarrow> Inr (model_properties fs)
                            | DictArguments d \<Rightarrow>
                                Inr (AList.update ''properties'' (JObj d) empty_properties)
                            | _ \<Rightarrow> Inr empty_properties))))"

subsection \<open>\<^verbatim>\<open>format_tool\<close>\<close>

definition format_tool :: "env \<Rightarrow> tool \<Rightarrow> error + json" where
  "format_tool env tool =
     (let ty = env_tool_type env tool in
      if ty = Some ''computer_20241022'' then
        Inr (JObj
          [(''type'', opt_json ty),
           (''name'', JStr (tool_name tool)),
           (''display_width_px'',
              (case tool_computer_20241022 tool of
                 None \<Rightarrow> JNull | Some c \<Rightarrow> JInt (display_width_px c))),
           (''display_height_px'',
              (case tool_computer_20241022 tool of
                 None \<Rightarrow> JNull | Some c \<Rightarrow> JInt (display_height_px c))),
           (''display_number'',
              (case tool_computer_20241022 tool of
                 None \<Rightarrow> JNull | Some c \<Rightarrow> JInt (display_number c)))])
      else if ty \<in> set [Some ''bash_20241022'', Some ''text_editor_20241022''] then
        Inr (JObj [(''name'', JStr (tool_name tool)), (''type'', opt_json ty)])
      else if ty = Some ''function'' then
        Inr (JObj
          [(''type'', JStr ''function''),
           (''function'', JObj
              [(''name'', JStr (tool_name tool)),
               (''description'', opt_json (tool_description tool)),
               (''parameters'',
                  (case tool_function tool of
                     None \<Rightarrow> JNull
                   | Some f \<Rightarrow>
                       (case function_parameters f of None \<Rightarrow> JNull | Some p \<Rightarrow> p)))])])
      else
        (let formatted_function =
               [(''name'', JStr (tool_name tool)),
                (''description'', opt_json (tool_description tool))]
         in if ty = Some ''system'' then
              (case env_system_jsonschema env (tool_system tool) of
                 Inl e \<Rightarrow> Inl e
               | Inr json_schema \<Rightarrow>
                   Inr (JObj
                     [(''type'', JStr ''function''),
                      (''function'', JObj
                         (AList.update ''parameters'' (JObj json_schema)
                           (AList.update ''description''
                              (if truthy (dict_get formatted_function ''description'')
                               then dict_get formatted_function ''description''
                               else dict_get json_schema ''description'')
                              formatted_function)))]))
            else if ty = Some ''integration'' \<and> tool_integration tool \<noteq> None then
              (case get_integration_arguments env tool of
                 Inl e \<Rightarrow> Inl e
               | Inr properties \<Rightarrow>
                   Inr (JObj
                     [(''type'', JStr ''function''),
                      (''function'', JObj
                         (AList.update ''parameters'' (JObj properties) formatted_function))]))
            else if ty = Some ''api_call'' \<and> tool_api_call tool \<noteq> None then
              Inr (JObj
                [(''type'', JStr ''function''),
                 (''function'', JObj
                    (AList.update ''parameters''
                       (case tool_api_call tool of
                          None \<Rightarrow> JNull | Some a \<Rightarrow> api_call_schema a)
                       formatted_function))])
            else
              Inr (JObj [(''type'', JStr ''function''), (''function'', JObj formatted_function)])))"

section \<open>The prompt step (activities/task_steps/prompt_step.py)\<close>

subsection \<open>Strings\<close>

definition COMPUTER_USE_BETA_FLAG :: string where
  "COMPUTER_USE_BETA_FLAG = ''computer-use-2024-10-22''"

definition EVAL_PROMPT_PREFIX :: string where
  "EVAL_PROMPT_PREFIX = ''$_ ''"

definition startswith :: "string \<Rightarrow> string \<Rightarrow> bool" where
  "startswith s p = (take (length p) s = p)"

text \<open>
  \<^verbatim>\<open>str.strip()\<close> removes the white space at both ends; a character of the model is a
  code point below 256.
\<close>

definition isspace :: "char \<Rightarrow> bool" where
  "isspace c =
     (c \<in> set [CHR 0x09, CHR 0x0A, CHR 0x0B, CHR 0x0C, CHR 0x0D, CHR 0x1C, CHR 0x1D,
                CHR 0x1E, CHR 0x1F, CHR 0x20, CHR 0x85, CHR 0xA0])"

definition strip :: "string \<Rightarrow> string" where
  "strip s = rev (dropWhile isspace (rev (dropWhile isspace s)))"

text \<open>\<^verbatim>\<open>str.lower()\<close> on the letters A to Z.\<close>

definition lower_char :: "char \<Rightarrow> char" where
  "lower_char c =
     (let n = (of_char c :: nat) in if 65 \<le> n \<and> n \<le> 90 then char_of (n + 32) else c)"

definition lower :: "string \<Rightarrow> string" where
  "lower s = map lower_char s"

subsection \<open>The prompt: lines 159 to 189\<close>

definition is_str :: "json \<Rightarrow> bool" where
  "is_str v = (case v of JStr s \<Rightarrow> True | _ \<Rightarrow> False)"

definition is_list :: "json \<Rightarrow> bool" where
  "is_list v = (case v of JList xs \<Rightarrow> True | _ \<Rightarrow> False)"

definition should_evaluate_prompt :: "json \<Rightarrow> bool" where
  "should_evaluate_prompt prompt =
     (case prompt of JStr s \<Rightarrow> startswith s EVAL_PROMPT_PREFIX | _ \<Rightarrow> False)"

definition prompt_messages :: "env \<Rightarrow> step_context \<Rightarrow> error + json list" where
  "prompt_messages env context =
     (let prompt = step_prompt (context_current_step context);
          data = context_data context
      in case
           (case prompt of
              JStr s \<Rightarrow>
                if startswith s EVAL_PROMPT_PREFIX then
                  (case env_base_evaluate env (strip (drop (length EVAL_PROMPT_PREFIX) s)) data of
                     Inl e \<Rightarrow> Inl e
                   | Inr v \<Rightarrow>
                       if \<not> (is_str v \<or> is_list v) then
                         Inl (ApplicationError
                                ''Invalid prompt expression, expected a string or list'')
                       else Inr v)
                else Inr prompt
            | _ \<Rightarrow> Inr prompt)
         of
           Inl e \<Rightarrow> Inl e
         | Inr evaluated \<Rightarrow>
             (let wrapped =
                    (case evaluated of
                       JList ms \<Rightarrow> ms
                     | _ \<Rightarrow> [JObj [(''role'', JStr ''user''), (''content'', evaluated)]])
              in if \<not> should_evaluate_prompt prompt
                 then env_render_template env wrapped data [''developer_id'']
                 else Inr wrapped))"

subsection \<open>The settings: lines 192 to 221\<close>

definition agent_default_settings_dump :: "step_context \<Rightarrow> dict" where
  "agent_default_settings_dump context =
     (case agent_default_settings (context_agent context) of None \<Rightarrow> [] | Some d \<Rightarrow> d)"

definition agent_model_or_default :: "step_context \<Rightarrow> string" where
  "agent_model_or_default context =
     (case agent_model (context_agent context) of
        None \<Rightarrow> ''gpt-4o''
      | Some m \<Rightarrow> if m \<noteq> [] then m else ''gpt-4o'')"

definition excluded_keys :: "string list" where
  "excluded_keys =
     [''prompt'', ''kind_'', ''label'', ''unwrap'', ''auto_run_tools'', ''disable_cache'',
      ''tools'']"

text \<open>
  \<^verbatim>\<open>passed_settings.update(passed_settings.pop("settings", {}))\<close>: the dumped field
  \<^verbatim>\<open>settings\<close> is a dictionary or \<^verbatim>\<open>None\<close>, and \<^verbatim>\<open>update\<close> refuses \<^verbatim>\<open>None\<close>.
\<close>

definition passed_settings :: "prompt_step_def \<Rightarrow> error + dict" where
  "passed_settings step =
     (let dumped = filter (\<lambda>(k, v). k \<notin> set excluded_keys) (step_fields_set step)
      in case
           (case map_of dumped ''settings'' of
              None \<Rightarrow> Inr (dict_update dumped [])
            | Some (JObj settings) \<Rightarrow>
                Inr (dict_update (AList.delete ''settings'' dumped) settings)
            | Some _ \<Rightarrow> Inl (TypeError ''object is not iterable''))
         of
           Inl e \<Rightarrow> Inl e
         | Inr merged \<Rightarrow>
             Inr (if \<not> truthy (dict_get merged ''tools'')
                  then AList.delete ''tool_choice'' merged
                  else merged))"

subsection \<open>The reverse map: lines 224 to 230\<close>

definition json_key :: "json \<Rightarrow> string option" where
  "json_key v = (case v of JStr s \<Rightarrow> Some s | _ \<Rightarrow> None)"

text \<open>
  \<^verbatim>\<open>fmt_tool.get("name") or fmt_tool.get("function", {}).get("name")\<close>; the names that
  \<^verbatim>\<open>format_tool\<close> writes are strings, another value stands for \<^verbatim>\<open>None\<close>.
\<close>

definition emitted_name :: "json \<Rightarrow> string option" where
  "emitted_name fmt_tool =
     (case fmt_tool of
        JObj d \<Rightarrow>
          if truthy (dict_get d ''name'') then json_key (dict_get d ''name'')
          else (case map_of d ''function'' of
                  Some (JObj f) \<Rightarrow> json_key (dict_get f ''name'')
                | _ \<Rightarrow> None)
      | _ \<Rightarrow> None)"

definition tools_mapping :: "json list \<Rightarrow> tool list \<Rightarrow> (string option \<times> tool) list" where
  "tools_mapping formatted_tools tools =
     dict_update [] (map (\<lambda>(fmt_tool, orig_tool). (emitted_name fmt_tool, orig_tool))
                       (zip formatted_tools tools))"

subsection \<open>The native-tools backend: lines 233 to 318\<close>

definition native_types :: "string list" where
  "native_types = [''computer_20241022'', ''bash_20241022'', ''text_editor_20241022'']"

text \<open>\<^verbatim>\<open>tool["type"]\<close> of a formatted tool; every formatted tool has the key.\<close>

definition formatted_type :: "json \<Rightarrow> json" where
  "formatted_type fmt_tool = (case fmt_tool of JObj d \<Rightarrow> dict_get d ''type'' | _ \<Rightarrow> JNull)"

definition is_native_tool :: "json \<Rightarrow> bool" where
  "is_native_tool fmt_tool = (formatted_type fmt_tool \<in> set (map JStr native_types))"

definition use_anthropic :: "string \<Rightarrow> json list \<Rightarrow> bool" where
  "use_anthropic model formatted_tools =
     (startswith (lower model) ''claude-3.5'' \<and> (\<exists>t \<in> set formatted_tools. is_native_tool t))"

text \<open>\<^verbatim>\<open>message["content"]\<close>.\<close>

definition message_content_of :: "json \<Rightarrow> error + json" where
  "message_content_of m =
     (case m of
        JObj d \<Rightarrow>
          (case map_of d ''content'' of
             None \<Rightarrow> Inl (KeyError ''content'')
           | Some c \<Rightarrow> Inr (JObj [(''role'', JStr ''user''), (''content'', c)]))
      | _ \<Rightarrow> Inl (TypeError ''message is not subscriptable by a string''))"

definition anthropic_request :: "env \<Rightarrow> json list \<Rightarrow> json list \<Rightarrow> error + claude_request" where
  "anthropic_request env prompt formatted_tools =
     (case map_result message_content_of prompt of
        Inl e \<Rightarrow> Inl e
      | Inr messages \<Rightarrow>
          Inr \<lparr>request_api_key = env_anthropic_api_key env,
               request_model = ''claude-3-5-sonnet-20241022'',
               request_messages = messages,
               request_tools = filter is_native_tool formatted_tools,
               request_max_tokens = 1024,
               request_betas = [COMPUTER_USE_BETA_FLAG]\<rparr>)"

fun is_text :: "content_block \<Rightarrow> bool" where
  "is_text (TextBlock t) = True"
| "is_text (ToolUseBlock i n a) = False"

fun block_text :: "content_block \<Rightarrow> string option" where
  "block_text (TextBlock t) = Some t"
| "block_text (ToolUseBlock i n a) = None"

text \<open>The element of the comprehension over the blocks of type \<^verbatim>\<open>tool_use\<close>.\<close>

fun tool_use_call :: "content_block \<Rightarrow> tool_call option" where
  "tool_use_call (ToolUseBlock i n a) =
     Some \<lparr>call_id = None, call_type = ''function'',
           call_function = \<lparr>function_name = Some n, function_arguments = a\<rparr>\<rparr>"
| "tool_use_call (TextBlock t) = None"

definition claude_to_response :: "env \<Rightarrow> beta_message \<Rightarrow> error + tool_call model_response" where
  "claude_to_response env claude_response =
     (if length (filter is_text (claude_content claude_response)) > 1 then
        Inl (ApplicationError ''Claude should only return one message'')
      else
        (let text_block = find is_text (claude_content claude_response);
             stop_reason = claude_stop_reason claude_response
         in case
              (if stop_reason = Some ''tool_use'' then
                 Inr \<lparr>choices_message =
                        \<lparr>message_role = ''assistant'',
                         message_content =
                           (case text_block of None \<Rightarrow> None | Some b \<Rightarrow> block_text b),
                         message_tool_calls =
                           Some (List.map_filter tool_use_call
                                   (claude_content claude_response))\<rparr>,
                      choices_finish_reason = ''tool_calls''\<rparr>
               else
                 (case text_block of
                    None \<Rightarrow>
                      Inl (AssertionError
                             ''Claude should always return a text block for stop_reason=stop'')
                  | Some b \<Rightarrow>
                      Inr \<lparr>choices_message =
                             \<lparr>message_role = ''assistant'',
                              message_content = block_text b,
                              message_tool_calls = None\<rparr>,
                           choices_finish_reason = ''stop''\<rparr>))
            of
              Inl e \<Rightarrow> Inl e
            | Inr choice \<Rightarrow>
                Inr \<lparr>response_id = claude_id claude_response,
                     response_choices = [choice],
                     response_created = env_now env,
                     response_model = claude_model claude_response,
                     response_object = ''text_completion''\<rparr>))"

subsection \<open>The generic backend: lines 320 to 339\<close>

text \<open>
  The formatted tools are replaced by \<^verbatim>\<open>None\<close> before the call data are built (the line
  under the FIXME), so \<^verbatim>\<open>formatted_tools or None\<close> is \<^verbatim>\<open>None\<close>.
\<close>

definition completion_data :: "string \<Rightarrow> json list \<Rightarrow> json list \<Rightarrow> dict \<Rightarrow> dict \<Rightarrow> dict" where
  "completion_data model formatted_tools prompt default_settings passed =
     (let formatted_tools = (None :: json list option)
      in dict_update
           (dict_update
              [(''model'', JStr model),
               (''tools'',
                  (case formatted_tools of
                     None \<Rightarrow> JNull
                   | Some ts \<Rightarrow> if ts \<noteq> [] then JList ts else JNull)),
               (''messages'', JList prompt)]
              default_settings)
           passed)"

definition extra_body :: "env \<Rightarrow> step_context \<Rightarrow> dict" where
  "extra_body env context =
     [(''cache'',
         JObj [(''no-cache'',
                  JBool (env_debug env \<or> step_disable_cache (context_current_step context)))])]"

text \<open>A key \<^verbatim>\<open>extra_body\<close> among the settings meets the keyword of the call twice.\<close>

definition generic_completion ::
  "env \<Rightarrow> step_context \<Rightarrow> dict \<Rightarrow> error + tool_call model_response" where
  "generic_completion env context data =
     (if map_of data ''extra_body'' \<noteq> None
      then Inl (TypeError ''got multiple values for keyword argument extra_body'')
      else env_acompletion env data (extra_body env context))"

subsection \<open>The response and the outcome: lines 341 to 382\<close>

definition dump_call :: "tool_call \<Rightarrow> call_dict" where
  "dump_call call =
     [(Some ''function'',
         JObj [(''arguments'', function_arguments (call_function call)),
               (''name'', opt_json (function_name (call_function call)))]),
      (Some ''id'', opt_json (call_id call)),
      (Some ''type'', JStr (call_type call))]"

definition tool_not_found :: "string option \<Rightarrow> string" where
  "tool_not_found call_name =
     ''Tool '' @ (case call_name of None \<Rightarrow> ''None'' | Some n \<Rightarrow> n) @ '' not found''"

text \<open>
  The body of the loop over the calls, on the dump of one call:
  \<^verbatim>\<open>call["function"]["name"]\<close> and \<^verbatim>\<open>call["function"]["arguments"]\<close> are the fields
  of the call that was dumped.
\<close>

definition rewrite_call ::
  "env \<Rightarrow> (string option \<times> tool) list \<Rightarrow> tool_call \<Rightarrow> error + call_dict" where
  "rewrite_call env mapping c =
     (let call = dump_call c;
          call_name = function_name (call_function c);
          call_args = function_arguments (call_function c)
      in case map_of mapping call_name of
           None \<Rightarrow> Inl (ApplicationError (tool_not_found call_name))
         | Some original_tool \<Rightarrow>
             if env_tool_type env original_tool = Some ''function'' then Inr call
             else
               Inr (AList.update (env_tool_type env original_tool)
                      (JObj [(''name'', opt_json call_name), (''arguments'', call_args)])
                      (AList.update (Some ''type'') (opt_json (env_tool_type env original_tool))
                         (AList.delete (Some ''function'') call))))"

definition rewrite_choice ::
  "env \<Rightarrow> (string option \<times> tool) list \<Rightarrow> tool_call choices \<Rightarrow> error + call_dict choices" where
  "rewrite_choice env mapping choice =
     (let message = choices_message choice
      in if choices_finish_reason choice = ''tool_calls'' then
           (case message_tool_calls message of
              None \<Rightarrow> Inl (TypeError ''NoneType object is not iterable'')
            | Some calls \<Rightarrow>
                (case map_result (rewrite_call env mapping) calls of
                   Inl e \<Rightarrow> Inl e
                 | Inr rewritten \<Rightarrow>
                     Inr \<lparr>choices_message =
                            \<lparr>message_role = message_role message,
                             message_content = message_content message,
                             message_tool_calls = Some rewritten\<rparr>,
                          choices_finish_reason = choices_finish_reason choice\<rparr>))
         else
           Inr \<lparr>choices_message =
                  \<lparr>message_role = message_role message,
                   message_content = message_content message,
                   message_tool_calls = map_option (map dump_call) (message_tool_calls message)\<rparr>,
                choices_finish_reason = choices_finish_reason choice\<rparr>)"

definition step_result ::
  "env \<Rightarrow> step_context \<Rightarrow> (string option \<times> tool) list \<Rightarrow> tool_call model_response \<Rightarrow>
   error + step_outcome" where
  "step_result env context mapping response =
     (if step_unwrap (context_current_step context) then
        (if length (response_choices response) \<noteq> 1 then
           Inl (ApplicationError ''Only one choice is supported'')
         else
           (case response_choices response of
              [] \<Rightarrow> Inl (ApplicationError ''Only one choice is supported'')
            | choice # others \<Rightarrow>
                if choices_finish_reason choice = ''tool_calls'' then
                  Inl (ApplicationError ''Tool calls cannot be unwrapped'')
                else
                  Inr \<lparr>outcome_output = Content (message_content (choices_message choice)),
                       outcome_next = None\<rparr>))
      else
        (case map_result (rewrite_choice env mapping) (response_choices response) of
           Inl e \<Rightarrow> Inl e
         | Inr rewritten \<Rightarrow>
             Inr \<lparr>outcome_output =
                    Response
                      \<lparr>response_id = response_id response,
                       response_choices = rewritten,
                       response_created = response_created response,
                       response_model = response_model response,
                       response_object = response_object response\<rparr>,
                  outcome_next = None\<rparr>))"

subsection \<open>\<^verbatim>\<open>prompt_step\<close>\<close>

text \<open>
  The response of the model as normalised at line 340, with the reverse map: everything
  up to the choice between the unwrapped content and the full response.
\<close>

definition prompt_response ::
  "env \<Rightarrow> step_context \<Rightarrow> error + ((string option \<times> tool) list \<times> tool_call model_response)" where
  "prompt_response env context =
     (case prompt_messages env context of
        Inl e \<Rightarrow> Inl e
      | Inr prompt \<Rightarrow>
          (case passed_settings (context_current_step context) of
             Inl e \<Rightarrow> Inl e
           | Inr passed \<Rightarrow>
               (case map_result (format_tool env) (context_tools context) of
                  Inl e \<Rightarrow> Inl e
                | Inr formatted_tools \<Rightarrow>
                    (let mapping = tools_mapping formatted_tools (context_tools context);
                         model = agent_model_or_default context
                     in case
                          (if use_anthropic model formatted_tools then
                             (case anthropic_request env prompt formatted_tools of
                                Inl e \<Rightarrow> Inl e
                              | Inr request \<Rightarrow>
                                  (case env_anthropic_create env request of
                                     Inl e \<Rightarrow> Inl e
                                   | Inr claude_response \<Rightarrow>
                                       claude_to_response env claude_response))
                           else
                             generic_completion env context
                               (completion_data model formatted_tools prompt
                                  (agent_default_settings_dump context) passed))
                        of
                          Inl e \<Rightarrow> Inl e
                        | Inr response \<Rightarrow> Inr (mapping, response)))))"

definition prompt_step :: "env \<Rightarrow> step_context \<Rightarrow> error + step_outcome" where
  "prompt_step env context =
     (case prompt_response env context of
        Inl e \<Rightarrow> Inl e
      | Inr (mapping, response) \<Rightarrow> step_result env context mapping response)"

section \<open>Validation of expressions (autogen/openapi_model.py)\<close>

text \<open>
  \<^verbatim>\<open>validate_python_expression\<close> calls \<^verbatim>\<open>ast.parse(expr)\<close>, with no mode given, and
  catches \<^verbatim>\<open>SyntaxError\<close> alone. The parser is Python's: a parameter \<open>ast_parse\<close>, which
  returns a tree or raises.
\<close>

definition validate_python_expression ::
  "(string \<Rightarrow> error + 'ast) \<Rightarrow> string \<Rightarrow> error + (bool \<times> string)" where
  "validate_python_expression ast_parse expr =
     (case ast_parse expr of
        Inr tree \<Rightarrow> Inr (True, [])
      | Inl (SyntaxError e) \<Rightarrow>
          Inr (False, ''SyntaxError in '' @ [CHR 0x27] @ expr @ [CHR 0x27] @ '': '' @ e)
      | Inl other \<Rightarrow> Inl other)"

text \<open>The loop of \<^verbatim>\<open>validate_evaluate_expressions\<close> over the items of the dictionary.\<close>

fun validate_items :: "(string \<Rightarrow> error + 'ast) \<Rightarrow> (string \<times> string) list \<Rightarrow> error + unit" where
  "validate_items ast_parse [] = Inr ()"
| "validate_items ast_parse ((key, expr) # items) =
     (case validate_python_expression ast_parse expr of
        Inl e \<Rightarrow> Inl e
      | Inr (is_valid, err) \<Rightarrow>
          if \<not> is_valid then
            Inl (ValueError
                   (''Invalid Python expression in key '' @ [CHR 0x27] @ key @ [CHR 0x27]
                    @ '': '' @ err))
          else validate_items ast_parse items)"

definition validate_evaluate_expressions ::
  "(string \<Rightarrow> error + 'ast) \<Rightarrow> (string \<times> string) list \<Rightarrow> error + (string \<times> string) list" where
  "validate_evaluate_expressions ast_parse v =
     (case validate_items ast_parse v of Inl e \<Rightarrow> Inl e | Inr u \<Rightarrow> Inr v)"

section \<open>Sample inputs\<close>

text \<open>
  Collaborators for concrete runs: the type of a tool is \<^const>\<open>type_property\<close>, the
  evaluator returns \<open>v\<close>, the renderer returns the messages as they are, and the generic
  backend answers \<open>response\<close>.
\<close>

definition sample_env :: "json \<Rightarrow> tool_call model_response \<Rightarrow> env" where
  "sample_env v response =
     \<lparr>env_tool_type = type_property,
      env_system_jsonschema = (\<lambda>system. Inr []),
      env_class_arguments = (\<lambda>c. NoArguments),
      env_base_evaluate = (\<lambda>expr data. Inr v),
      env_render_template = (\<lambda>prompt data skip_vars. Inr prompt),
      env_anthropic_create = (\<lambda>request. Inl (Raised ''no native backend'')),
      env_acompletion = (\<lambda>data extra. Inr response),
      env_debug = False,
      env_anthropic_api_key = [],
      env_now = 0\<rparr>"

definition sample_context :: "json \<Rightarrow> bool \<Rightarrow> tool list \<Rightarrow> step_context" where
  "sample_context prompt unwrap tools =
     \<lparr>context_current_step =
        \<lparr>step_prompt = prompt, step_unwrap = unwrap, step_disable_cache = False,
         step_fields_set = [(''prompt'', prompt)]\<rparr>,
      context_agent = \<lparr>agent_model = Some ''gpt-4o'', agent_default_settings = None\<rparr>,
      context_tools = tools,
      context_data = []\<rparr>"

definition sample_response :: "tool_call choices list \<Rightarrow> tool_call model_response" where
  "sample_response cs =
     \<lparr>response_id = ''r1'', response_choices = cs, response_created = 0,
      response_model = ''gpt-4o'', response_object = ''chat.completion''\<rparr>"

definition text_choice :: "string \<Rightarrow> tool_call choices" where
  "text_choice t =
     \<lparr>choices_message =
        \<lparr>message_role = ''assistant'', message_content = Some t, message_tool_calls = None\<rparr>,
      choices_finish_reason = ''stop''\<rparr>"

definition calls_choice :: "tool_call list \<Rightarrow> tool_call choices" where
  "calls_choice calls =
     \<lparr>choices_message =
        \<lparr>message_role = ''assistant'', message_content = None,
         message_tool_calls = Some calls\<rparr>,
      choices_finish_reason = ''tool_calls''\<rparr>"

definition sample_call :: "string \<Rightarrow> tool_call" where
  "sample_call n =
     \<lparr>call_id = Some ''call_1'', call_type = ''function'',
      call_function = \<lparr>function_name = Some n, function_arguments = JStr ''{}''\<rparr>\<rparr>"

definition empty_tool :: "string \<Rightarrow> tool" where
  "empty_tool n =
     \<lparr>tool_name = n, tool_description = None, tool_function = None,
      tool_integration = None, tool_system = None, tool_api_call = None,
      tool_computer_20241022 = None, tool_text_editor_20241022 = None,
      tool_bash_20241022 = None\<rparr>"

definition function_tool :: "string \<Rightarrow> tool" where
  "function_tool n =
     (empty_tool n)\<lparr>tool_function := Some \<lparr>function_parameters = Some (JObj [])\<rparr>\<rparr>"

definition integration_tool :: "string \<Rightarrow> string \<Rightarrow> string option \<Rightarrow> tool" where
  "integration_tool n provider method =
     (empty_tool n)
       \<lparr>tool_integration :=
          Some \<lparr>integration_provider = provider, integration_method = method\<rparr>\<rparr>"

definition computer_tool :: "string \<Rightarrow> tool" where
  "computer_tool n =
     (empty_tool n)
       \<lparr>tool_computer_20241022 :=
          Some \<lparr>display_width_px = 1024, display_height_px = 768, display_number = 1\<rparr>\<rparr>"

section \<open>Notions of the specification\<close>

text \<open>
  A message is \<^verbatim>\<open>{role, content}\<close>; a list of messages is a list whose elements are
  messages.
\<close>

definition is_message :: "json \<Rightarrow> bool" where
  "is_message v =
     (case v of
        JObj d \<Rightarrow> map_of d ''role'' \<noteq> None \<and> map_of d ''content'' \<noteq> None
      | _ \<Rightarrow> False)"

definition is_message_list :: "json \<Rightarrow> bool" where
  "is_message_list v = (case v of JList ms \<Rightarrow> list_all is_message ms | _ \<Rightarrow> False)"

section \<open>Auxiliary facts\<close>

lemmas sample_defs = sample_env_def sample_context_def sample_response_def text_choice_def
  calls_choice_def sample_call_def empty_tool_def function_tool_def integration_tool_def
  computer_tool_def

lemmas step_defs = prompt_step_def prompt_response_def prompt_messages_def passed_settings_def
  format_tool_def tools_mapping_def use_anthropic_def generic_completion_def completion_data_def
  extra_body_def step_result_def rewrite_choice_def rewrite_call_def dump_call_def
  agent_model_or_default_def agent_default_settings_dump_def should_evaluate_prompt_def
  startswith_def EVAL_PROMPT_PREFIX_def excluded_keys_def dict_update_def dict_get_def
  type_property_def emitted_name_def json_key_def lower_def lower_char_def
  is_native_tool_def formatted_type_def native_types_def opt_json_def
  get_integration_arguments_def providers_map_def empty_properties_def is_str_def is_list_def
  strip_def isspace_def tool_not_found_def

lemma map_result_Inr:
  "map_result f xs = Inr ys \<longleftrightarrow> list_all2 (\<lambda>x y. f x = Inr y) xs ys"
proof (induction xs arbitrary: ys)
  case Nil
  show ?case by auto
next
  case (Cons x xs)
  have IH: "\<And>zs. list_all2 (\<lambda>x y. f x = Inr y) xs zs = (map_result f xs = Inr zs)"
    using Cons.IH by simp
  show ?case
    by (auto simp: list_all2_Cons1 IH split: sum.splits)
qed

lemma map_result_Inl:
  "map_result f xs = Inl e \<Longrightarrow> \<exists>x \<in> set xs. f x = Inl e"
  by (induction xs) (auto split: sum.splits)

lemma map_result_fails:
  "x \<in> set xs \<Longrightarrow> f x = Inl e \<Longrightarrow> \<exists>e'. map_result f xs = Inl e'"
  by (induction xs) (auto split: sum.splits)

lemma step_result_next:
  "step_result env context mapping response = Inr outcome \<Longrightarrow> outcome_next outcome = None"
  by (auto simp: step_result_def split: if_splits list.splits sum.splits)

lemma find_is_text:
  "find is_text bs = (case filter is_text bs of [] \<Rightarrow> None | b # rest \<Rightarrow> Some b)"
  by (induction bs) auto

lemma tool_use_calls:
  "map (\<lambda>c. (function_name (call_function c), function_arguments (call_function c)))
       (List.map_filter tool_use_call bs)
   = concat (map (\<lambda>b. case b of ToolUseBlock i n a \<Rightarrow> [(Some n, a)] | TextBlock t \<Rightarrow> []) bs)"
  by (induction bs) (auto split: content_block.splits)

lemma rewrite_call_unknown:
  "map_of mapping (function_name (call_function c)) = None \<Longrightarrow>
     rewrite_call env mapping c
       = Inl (ApplicationError (tool_not_found (function_name (call_function c))))"
  by (simp add: rewrite_call_def)

lemma rewrite_call_Inl:
  "rewrite_call env mapping c = Inl e \<Longrightarrow>
     map_of mapping (function_name (call_function c)) = None
     \<and> e = ApplicationError (tool_not_found (function_name (call_function c)))"
  by (auto simp: rewrite_call_def Let_def split: option.splits if_splits)

lemma rewrite_call_Inr:
  assumes "rewrite_call env mapping c = Inr d"
  shows "\<exists>original_tool.
      map_of mapping (function_name (call_function c)) = Some original_tool
      \<and> (env_tool_type env original_tool = Some ''function'' \<longrightarrow> d = dump_call c)
      \<and> (\<forall>k. env_tool_type env original_tool = Some k \<and> k \<noteq> ''function'' \<and> k \<noteq> ''type'' \<longrightarrow>
            map_of d (Some ''function'') = None
            \<and> map_of d (Some ''type'') = Some (JStr k)
            \<and> map_of d (Some k)
                = Some (JObj [(''name'', opt_json (function_name (call_function c))),
                              (''arguments'', function_arguments (call_function c))])
            \<and> (\<forall>key. key \<noteq> Some ''function'' \<and> key \<noteq> Some ''type'' \<and> key \<noteq> Some k \<longrightarrow>
                  map_of d key = map_of (dump_call c) key))"
proof (cases "map_of mapping (function_name (call_function c))")
  case None
  with assms show ?thesis by (simp add: rewrite_call_def)
next
  case (Some t)
  show ?thesis
  proof (cases "env_tool_type env t = Some ''function''")
    case True
    with Some assms show ?thesis by (simp add: rewrite_call_def)
  next
    case False
    with Some assms have d:
      "d = AList.update (env_tool_type env t)
             (JObj [(''name'', opt_json (function_name (call_function c))),
                    (''arguments'', function_arguments (call_function c))])
             (AList.update (Some ''type'') (opt_json (env_tool_type env t))
                (AList.delete (Some ''function'') (dump_call c)))"
      by (simp add: rewrite_call_def Let_def)
    show ?thesis
      using Some False
      by (auto simp: d update_conv' delete_conv' opt_json_def)
  qed
qed

lemma rewrite_choice_Inl:
  "rewrite_choice env mapping c = Inl e \<Longrightarrow>
     (choices_finish_reason c = ''tool_calls'' \<and> message_tool_calls (choices_message c) = None)
     \<or> (\<exists>n. map_of mapping n = None \<and> e = ApplicationError (tool_not_found n))"
  by (auto simp: rewrite_choice_def Let_def split: if_splits option.splits sum.splits
      dest!: map_result_Inl rewrite_call_Inl)

lemma rewrite_choice_Inr:
  "rewrite_choice env mapping c = Inr c' \<Longrightarrow> choices_finish_reason c = ''tool_calls'' \<Longrightarrow>
     message_tool_calls (choices_message c) = Some calls \<Longrightarrow>
     \<exists>calls'. message_tool_calls (choices_message c') = Some calls'
       \<and> list_all2 (\<lambda>x y. rewrite_call env mapping x = Inr y) calls calls'"
  by (auto simp: rewrite_choice_def Let_def map_result_Inr split: sum.splits)

lemma rewrite_choice_fails:
  "choices_finish_reason c = ''tool_calls'' \<Longrightarrow>
   message_tool_calls (choices_message c) = Some calls \<Longrightarrow> x \<in> set calls \<Longrightarrow>
   rewrite_call env mapping x = Inl e \<Longrightarrow> \<exists>e'. rewrite_choice env mapping c = Inl e'"
  using map_result_fails [of x calls "rewrite_call env mapping" e]
  by (auto simp: rewrite_choice_def Let_def split: sum.splits)

lemma prompt_response_mapping:
  "prompt_response env context = Inr (mapping, response) \<Longrightarrow>
     \<exists>formatted. map_result (format_tool env) (context_tools context) = Inr formatted
       \<and> mapping = tools_mapping formatted (context_tools context)"
  by (auto simp: prompt_response_def Let_def split: sum.splits if_splits)

lemma rewrite_call_type_None:
  "map_of mapping (function_name (call_function c)) = Some original_tool \<Longrightarrow>
   env_tool_type env original_tool = None \<Longrightarrow>
   rewrite_call env mapping c
     = Inr (AList.update None
              (JObj [(''name'', opt_json (function_name (call_function c))),
                     (''arguments'', function_arguments (call_function c))])
              (AList.update (Some ''type'') JNull (AList.delete (Some ''function'') (dump_call c))))"
  by (simp add: rewrite_call_def opt_json_def)

section \<open>Results about the data model\<close>

text \<open>
  C8 (as amended). A transition is constructed exactly when its type is one of the five
  literals finish, wait, error, step and cancelled, and the constructed record carries
  that type: no record of type init or resume exists.
\<close>

theorem Transition_type_five:
  "(\<exists>t. Transition ty e out cur nxt i m ca ua = Inr t) =
     (ty = ''finish'' \<or> ty = ''wait'' \<or> ty = ''error'' \<or> ty = ''step'' \<or> ty = ''cancelled'')
   \<and> (\<forall>t. Transition ty e out cur nxt i m ca ua = Inr t \<longrightarrow> transition_type t = ty)"
  by (auto simp: Transition_def validate_Literal_def Transition_type_Literal_def
      split: sum.splits if_splits)

theorem Transition_type_five_witness:
  "(\<exists>t. Transition ''step'' ''e1'' [] [] None ''t1'' None 0 0 = Inr t)
   \<and> transition_type
       \<lparr>transition_type = ''step'', transition_execution_id = ''e1'', transition_output = [],
        transition_current = [], transition_next = None, transition_id = ''t1'',
        transition_metadata = None, transition_created_at = 0, transition_updated_at = 0\<rparr>
     = ''step''"
  using Transition_type_five [of "''step''" "''e1''" "[]" "[]" None "''t1''" None 0 0]
  by (simp add: Transition_def validate_Literal_def Transition_type_Literal_def)

text \<open>
  C8 as stated fails: the types init and resume are refused by the constructor.
\<close>

theorem Transition_init_resume_counterexample:
  "Transition ''init'' ''e1'' [] [] None ''t1'' None 0 0
     = Inl (ValidationError ''Input should be one of the literals'')
   \<and> Transition ''resume'' ''e1'' [] [] None ''t1'' None 0 0
     = Inl (ValidationError ''Input should be one of the literals'')"
  by (simp add: Transition_def validate_Literal_def Transition_type_Literal_def)

text \<open>
  C9 at a failing input: a tool whose only populated variant is
  \<^verbatim>\<open>computer_20241022\<close> has the derived type \<^verbatim>\<open>None\<close>, not the name of its variant.
\<close>

theorem type_property_computer_None:
  "tool_computer_20241022 (computer_tool ''screen'') \<noteq> None
   \<and> type_property (computer_tool ''screen'') = None"
  by (simp add: type_property_def computer_tool_def empty_tool_def)

section \<open>Results about the prompt step\<close>

text \<open>
  C10. Whenever the prompt step returns normally, by the unwrapped content or by the full
  response, the field \<^verbatim>\<open>next\<close> of its outcome is \<^verbatim>\<open>None\<close>.
\<close>

theorem prompt_step_next_None:
  "prompt_step env context = Inr outcome \<Longrightarrow> outcome_next outcome = None"
  by (auto simp: prompt_step_def dest: step_result_next split: sum.splits)

theorem prompt_step_next_None_witness:
  "(\<exists>outcome.
      prompt_step (sample_env JNull (sample_response [text_choice ''hi'']))
        (sample_context (JStr ''hello'') True [function_tool ''calc'']) = Inr outcome
      \<and> outcome_output outcome = Content (Some ''hi'') \<and> outcome_next outcome = None)
   \<and> (\<exists>outcome.
      prompt_step (sample_env JNull (sample_response [text_choice ''hi'']))
        (sample_context (JStr ''hello'') False [function_tool ''calc'']) = Inr outcome
      \<and> outcome_next outcome = None)"
proof -
  have a: "prompt_step (sample_env JNull (sample_response [text_choice ''hi'']))
        (sample_context (JStr ''hello'') True [function_tool ''calc''])
      = Inr \<lparr>outcome_output = Content (Some ''hi''), outcome_next = None\<rparr>"
    by (simp add: sample_defs step_defs)
  have "\<exists>outcome. prompt_step (sample_env JNull (sample_response [text_choice ''hi'']))
        (sample_context (JStr ''hello'') False [function_tool ''calc'']) = Inr outcome"
    by (simp add: sample_defs step_defs)
  then obtain outcome where b: "prompt_step (sample_env JNull (sample_response [text_choice ''hi'']))
        (sample_context (JStr ''hello'') False [function_tool ''calc'']) = Inr outcome"
    by blast
  from prompt_step_next_None [OF a] prompt_step_next_None [OF b] a b show ?thesis
    by simp
qed

text \<open>
  C1. With \<^verbatim>\<open>unwrap\<close> set, the step returns normally exactly when the normalised
  response has one choice whose finish reason is not \<^verbatim>\<open>tool_calls\<close>, and then its output
  is the content of that choice's message, not the response; another number of choices
  and a finish reason \<^verbatim>\<open>tool_calls\<close> are each an error of their own.
\<close>

theorem unwrap_returns_content:
  assumes "step_unwrap (context_current_step context)"
    and "prompt_response env context = Inr (mapping, response)"
  shows "(\<forall>outcome. prompt_step env context = Inr outcome \<longleftrightarrow>
            (\<exists>choice. response_choices response = [choice]
               \<and> choices_finish_reason choice \<noteq> ''tool_calls''
               \<and> outcome = \<lparr>outcome_output = Content (message_content (choices_message choice)),
                             outcome_next = None\<rparr>))
       \<and> (length (response_choices response) \<noteq> 1 \<longleftrightarrow>
            prompt_step env context = Inl (ApplicationError ''Only one choice is supported''))
       \<and> ((\<exists>choice. response_choices response = [choice]
               \<and> choices_finish_reason choice = ''tool_calls'') \<longleftrightarrow>
            prompt_step env context = Inl (ApplicationError ''Tool calls cannot be unwrapped''))"
  using assms
  by (cases "response_choices response")
     (auto simp: prompt_step_def step_result_def split: list.splits if_splits)

theorem unwrap_returns_content_witness:
  "step_unwrap (context_current_step (sample_context (JStr ''hello'') True [function_tool ''calc'']))
   \<and> prompt_response (sample_env JNull (sample_response [text_choice ''hi'']))
        (sample_context (JStr ''hello'') True [function_tool ''calc''])
      = Inr ([(Some ''calc'', function_tool ''calc'')], sample_response [text_choice ''hi''])
   \<and> prompt_step (sample_env JNull (sample_response [text_choice ''hi'']))
        (sample_context (JStr ''hello'') True [function_tool ''calc''])
      = Inr \<lparr>outcome_output = Content (Some ''hi''), outcome_next = None\<rparr>
   \<and> prompt_step (sample_env JNull (sample_response [text_choice ''hi'', text_choice ''ho'']))
        (sample_context (JStr ''hello'') True [function_tool ''calc''])
      = Inl (ApplicationError ''Only one choice is supported'')
   \<and> prompt_step (sample_env JNull (sample_response [calls_choice [sample_call ''calc'']]))
        (sample_context (JStr ''hello'') True [function_tool ''calc''])
      = Inl (ApplicationError ''Tool calls cannot be unwrapped'')"
proof -
  let ?C = "sample_context (JStr ''hello'') True [function_tool ''calc'']"
  let ?M = "[(Some ''calc'', function_tool ''calc'')]"
  have u: "step_unwrap (context_current_step ?C)"
    by (simp add: sample_defs)
  have r1: "prompt_response (sample_env JNull (sample_response [text_choice ''hi''])) ?C
      = Inr (?M, sample_response [text_choice ''hi''])"
    by (simp add: sample_defs step_defs)
  have r2: "prompt_response (sample_env JNull (sample_response [text_choice ''hi'', text_choice ''ho''])) ?C
      = Inr (?M, sample_response [text_choice ''hi'', text_choice ''ho''])"
    by (simp add: sample_defs step_defs)
  have r3: "prompt_response (sample_env JNull (sample_response [calls_choice [sample_call ''calc'']])) ?C
      = Inr (?M, sample_response [calls_choice [sample_call ''calc'']])"
    by (simp add: sample_defs step_defs)
  show ?thesis
    using u r1 unwrap_returns_content [OF u r1] unwrap_returns_content [OF u r2]
      unwrap_returns_content [OF u r3]
    by (simp add: sample_response_def text_choice_def calls_choice_def)
qed

text \<open>
  C3. The response of the native-tools backend: more than one text block is an error under
  every stop reason. Under the stop reason \<^verbatim>\<open>tool_use\<close> the one choice has the finish
  reason \<^verbatim>\<open>tool_calls\<close>, its tool calls are the \<^verbatim>\<open>tool_use\<close> blocks in their order (name
  and input, each of type function) and its content is the text of the text block, or
  \<^verbatim>\<open>None\<close> without one. Under another stop reason exactly one text block is required:
  its text is the content and the finish reason is \<^verbatim>\<open>stop\<close>; without it the step fails.
\<close>

theorem claude_response_normalised:
  "(claude_stop_reason m = Some ''tool_use'' \<longrightarrow>
      (1 < length (filter is_text (claude_content m)) \<longrightarrow>
         claude_to_response env m
           = Inl (ApplicationError ''Claude should only return one message''))
    \<and> (length (filter is_text (claude_content m)) \<le> 1 \<longrightarrow>
         (\<exists>calls.
            claude_to_response env m
              = Inr \<lparr>response_id = claude_id m,
                     response_choices =
                       [\<lparr>choices_message =
                           \<lparr>message_role = ''assistant'',
                            message_content =
                              (case filter is_text (claude_content m) of
                                 [] \<Rightarrow> None
                               | b # rest \<Rightarrow> block_text b),
                            message_tool_calls = Some calls\<rparr>,
                         choices_finish_reason = ''tool_calls''\<rparr>],
                     response_created = env_now env,
                     response_model = claude_model m,
                     response_object = ''text_completion''\<rparr>
            \<and> map (\<lambda>c. (function_name (call_function c), function_arguments (call_function c)))
                  calls
                = concat (map (\<lambda>b. case b of ToolUseBlock i n a \<Rightarrow> [(Some n, a)]
                                         | TextBlock t \<Rightarrow> [])
                            (claude_content m))
            \<and> list_all (\<lambda>c. call_type c = ''function'') calls))
    \<and> (\<forall>t. filter is_text (claude_content m) = [TextBlock t] \<longrightarrow>
         (case filter is_text (claude_content m) of [] \<Rightarrow> None | b # rest \<Rightarrow> block_text b)
           = Some t))
   \<and> (claude_stop_reason m \<noteq> Some ''tool_use'' \<longrightarrow>
      (\<forall>t. filter is_text (claude_content m) = [TextBlock t] \<longrightarrow>
         claude_to_response env m
           = Inr \<lparr>response_id = claude_id m,
                  response_choices =
                    [\<lparr>choices_message =
                        \<lparr>message_role = ''assistant'', message_content = Some t,
                         message_tool_calls = None\<rparr>,
                      choices_finish_reason = ''stop''\<rparr>],
                  response_created = env_now env,
                  response_model = claude_model m,
                  response_object = ''text_completion''\<rparr>)
    \<and> (length (filter is_text (claude_content m)) \<noteq> 1 \<longrightarrow>
         (\<exists>e. claude_to_response env m = Inl e)))"
proof -
  have calls_type: "list_all (\<lambda>c. call_type c = ''function'') (List.map_filter tool_use_call bs)"
    for bs
    by (induction bs) (auto split: content_block.splits option.splits elim: tool_use_call.elims)
  have A: "1 < length (filter is_text (claude_content m)) \<Longrightarrow>
         claude_to_response env m
           = Inl (ApplicationError ''Claude should only return one message'')"
    by (simp add: claude_to_response_def)
  have B: "claude_stop_reason m = Some ''tool_use'' \<Longrightarrow>
     length (filter is_text (claude_content m)) \<le> 1 \<Longrightarrow>
     claude_to_response env m
              = Inr \<lparr>response_id = claude_id m,
                     response_choices =
                       [\<lparr>choices_message =
                           \<lparr>message_role = ''assistant'',
                            message_content =
                              (case filter is_text (claude_content m) of
                                 [] \<Rightarrow> None
                               | b # rest \<Rightarrow> block_text b),
                            message_tool_calls =
                              Some (List.map_filter tool_use_call (claude_content m))\<rparr>,
                         choices_finish_reason = ''tool_calls''\<rparr>],
                     response_created = env_now env,
                     response_model = claude_model m,
                     response_object = ''text_completion''\<rparr>"
    by (simp add: claude_to_response_def find_is_text Let_def split: list.splits)
  have C: "claude_stop_reason m \<noteq> Some ''tool_use'' \<Longrightarrow>
      filter is_text (claude_content m) = [TextBlock t] \<Longrightarrow>
         claude_to_response env m
           = Inr \<lparr>response_id = claude_id m,
                  response_choices =
                    [\<lparr>choices_message =
                        \<lparr>message_role = ''assistant'', message_content = Some t,
                         message_tool_calls = None\<rparr>,
                      choices_finish_reason = ''stop''\<rparr>],
                  response_created = env_now env,
                  response_model = claude_model m,
                  response_object = ''text_completion''\<rparr>" for t
    by (simp add: claude_to_response_def find_is_text Let_def)
  have D: "claude_stop_reason m \<noteq> Some ''tool_use'' \<Longrightarrow>
      length (filter is_text (claude_content m)) \<noteq> 1 \<Longrightarrow>
         \<exists>e. claude_to_response env m = Inl e"
    by (cases "filter is_text (claude_content m)")
       (auto simp: claude_to_response_def find_is_text Let_def)
  show ?thesis
    using A B C D tool_use_calls [of "claude_content m"] calls_type [of "claude_content m"]
    by auto
qed


theorem claude_response_normalised_witness:
  "claude_to_response (sample_env JNull (sample_response []))
     \<lparr>claude_id = ''msg_1'',
      claude_content = [TextBlock ''ok'', ToolUseBlock ''tu_1'' ''computer'' (JObj [])],
      claude_stop_reason = Some ''tool_use'', claude_model = ''claude-3-5-sonnet-20241022''\<rparr>
     = Inr \<lparr>response_id = ''msg_1'',
            response_choices =
              [\<lparr>choices_message =
                  \<lparr>message_role = ''assistant'', message_content = Some ''ok'',
                   message_tool_calls =
                     Some [\<lparr>call_id = None, call_type = ''function'',
                            call_function =
                              \<lparr>function_name = Some ''computer'',
                               function_arguments = JObj []\<rparr>\<rparr>]\<rparr>,
                choices_finish_reason = ''tool_calls''\<rparr>],
            response_created = 0, response_model = ''claude-3-5-sonnet-20241022'',
            response_object = ''text_completion''\<rparr>
   \<and> claude_to_response (sample_env JNull (sample_response []))
     \<lparr>claude_id = ''msg_2'',
      claude_content = [TextBlock ''one'', TextBlock ''two''],
      claude_stop_reason = Some ''tool_use'', claude_model = ''claude-3-5-sonnet-20241022''\<rparr>
     = Inl (ApplicationError ''Claude should only return one message'')
   \<and> claude_to_response (sample_env JNull (sample_response []))
     \<lparr>claude_id = ''msg_3'',
      claude_content = [TextBlock ''hello''],
      claude_stop_reason = Some ''end_turn'', claude_model = ''claude-3-5-sonnet-20241022''\<rparr>
     = Inr \<lparr>response_id = ''msg_3'',
            response_choices =
              [\<lparr>choices_message =
                  \<lparr>message_role = ''assistant'', message_content = Some ''hello'',
                   message_tool_calls = None\<rparr>,
                choices_finish_reason = ''stop''\<rparr>],
            response_created = 0, response_model = ''claude-3-5-sonnet-20241022'',
            response_object = ''text_completion''\<rparr>
   \<and> (\<exists>e. claude_to_response (sample_env JNull (sample_response []))
     \<lparr>claude_id = ''msg_4'',
      claude_content = [ToolUseBlock ''tu_1'' ''computer'' (JObj [])],
      claude_stop_reason = Some ''end_turn'', claude_model = ''claude-3-5-sonnet-20241022''\<rparr>
     = Inl e)"
  using
    claude_response_normalised [of
      "\<lparr>claude_id = ''msg_1'',
        claude_content = [TextBlock ''ok'', ToolUseBlock ''tu_1'' ''computer'' (JObj [])],
        claude_stop_reason = Some ''tool_use'', claude_model = ''claude-3-5-sonnet-20241022''\<rparr>"
      "sample_env JNull (sample_response [])"]
    claude_response_normalised [of
      "\<lparr>claude_id = ''msg_2'',
        claude_content = [TextBlock ''one'', TextBlock ''two''],
        claude_stop_reason = Some ''tool_use'', claude_model = ''claude-3-5-sonnet-20241022''\<rparr>"
      "sample_env JNull (sample_response [])"]
    claude_response_normalised [of
      "\<lparr>claude_id = ''msg_3'',
        claude_content = [TextBlock ''hello''],
        claude_stop_reason = Some ''end_turn'', claude_model = ''claude-3-5-sonnet-20241022''\<rparr>"
      "sample_env JNull (sample_response [])"]
    claude_response_normalised [of
      "\<lparr>claude_id = ''msg_4'',
        claude_content = [ToolUseBlock ''tu_1'' ''computer'' (JObj [])],
        claude_stop_reason = Some ''end_turn'', claude_model = ''claude-3-5-sonnet-20241022''\<rparr>"
      "sample_env JNull (sample_response [])"]
  by (simp add: claude_to_response_def sample_env_def)

text \<open>
  C6 (as amended). For a prompt that is a string beginning with \<^verbatim>\<open>$_ \<close>, the stripped
  remainder is evaluated against the context data; the step fails with the invalid prompt
  expression error exactly when the value is neither a string nor a list (of whatever
  elements); a string is wrapped as one message of the user, a list is taken as it is.
\<close>

theorem prompt_expression_checked:
  assumes "step_prompt (context_current_step context) = JStr (EVAL_PROMPT_PREFIX @ rest)"
    and "env_base_evaluate env (strip rest) (context_data context) = Inr v"
  shows "(prompt_messages env context
            = Inl (ApplicationError ''Invalid prompt expression, expected a string or list'')
          \<longleftrightarrow> \<not> is_str v \<and> \<not> is_list v)
       \<and> (\<forall>s. v = JStr s \<longrightarrow>
            prompt_messages env context
              = Inr [JObj [(''role'', JStr ''user''), (''content'', JStr s)]])
       \<and> (\<forall>ms. v = JList ms \<longrightarrow> prompt_messages env context = Inr ms)"
  using assms
  by (cases v)
     (auto simp: prompt_messages_def should_evaluate_prompt_def startswith_def is_str_def
        is_list_def Let_def)

theorem prompt_expression_checked_witness:
  "prompt_messages (sample_env (JStr ''Say hi'') (sample_response []))
     (sample_context (JStr ''$_ _.question'') False [])
     = Inr [JObj [(''role'', JStr ''user''), (''content'', JStr ''Say hi'')]]
   \<and> prompt_messages (sample_env (JInt 3) (sample_response []))
     (sample_context (JStr ''$_ 1 + 2'') False [])
     = Inl (ApplicationError ''Invalid prompt expression, expected a string or list'')"
proof -
  have p1: "step_prompt (context_current_step (sample_context (JStr ''$_ _.question'') False []))
      = JStr (EVAL_PROMPT_PREFIX @ ''_.question'')"
    by (simp add: sample_context_def EVAL_PROMPT_PREFIX_def)
  have e1: "env_base_evaluate (sample_env (JStr ''Say hi'') (sample_response []))
      (strip ''_.question'') (context_data (sample_context (JStr ''$_ _.question'') False []))
      = Inr (JStr ''Say hi'')"
    by (simp add: sample_env_def)
  have p2: "step_prompt (context_current_step (sample_context (JStr ''$_ 1 + 2'') False []))
      = JStr (EVAL_PROMPT_PREFIX @ ''1 + 2'')"
    by (simp add: sample_context_def EVAL_PROMPT_PREFIX_def)
  have e2: "env_base_evaluate (sample_env (JInt 3) (sample_response []))
      (strip ''1 + 2'') (context_data (sample_context (JStr ''$_ 1 + 2'') False []))
      = Inr (JInt 3)"
    by (simp add: sample_env_def)
  show ?thesis
    using prompt_expression_checked [OF p1 e1] prompt_expression_checked [OF p2 e2]
    by (simp add: is_str_def is_list_def)
qed

text \<open>
  C6 as stated fails: the value \<^verbatim>\<open>[1]\<close> is neither a string nor a list of messages, and
  the step does not fail on it.
\<close>

theorem prompt_expression_counterexample:
  "step_prompt (context_current_step (sample_context (JStr ''$_ [1]'') False []))
     = JStr (''$_ '' @ ''[1]'')
   \<and> env_base_evaluate (sample_env (JList [JInt 1]) (sample_response [])) (strip ''[1]'')
       (context_data (sample_context (JStr ''$_ [1]'') False []))
     = Inr (JList [JInt 1])
   \<and> \<not> is_str (JList [JInt 1])
   \<and> \<not> is_message_list (JList [JInt 1])
   \<and> prompt_messages (sample_env (JList [JInt 1]) (sample_response []))
       (sample_context (JStr ''$_ [1]'') False [])
     = Inr [JInt 1]"
  by (simp add: sample_defs step_defs is_message_list_def is_message_def)

text \<open>
  C4 at a failing input: a step with one function tool on the generic backend. The tool is
  formatted, and the call data hold \<^verbatim>\<open>None\<close> under \<^verbatim>\<open>tools\<close>.
\<close>

theorem generic_backend_tools_None:
  "map_result (format_tool (sample_env JNull (sample_response []))) [function_tool ''calc'']
     = Inr [JObj [(''type'', JStr ''function''),
                  (''function'', JObj [(''name'', JStr ''calc''), (''description'', JNull),
                                       (''parameters'', JObj [])])]]
   \<and> \<not> use_anthropic ''gpt-4o''
         [JObj [(''type'', JStr ''function''),
                (''function'', JObj [(''name'', JStr ''calc''), (''description'', JNull),
                                     (''parameters'', JObj [])])]]
   \<and> completion_data ''gpt-4o''
       [JObj [(''type'', JStr ''function''),
              (''function'', JObj [(''name'', JStr ''calc''), (''description'', JNull),
                                   (''parameters'', JObj [])])]]
       [JObj [(''role'', JStr ''user''), (''content'', JStr ''hello'')]] [] []
     = [(''model'', JStr ''gpt-4o''), (''tools'', JNull),
        (''messages'', JList [JObj [(''role'', JStr ''user''), (''content'', JStr ''hello'')]])]"
  by (simp add: sample_defs step_defs)

text \<open>
  C5 at failing inputs: an integration tool whose provider, or whose method under
  browserbase, is not in \<^verbatim>\<open>providers_map\<close> makes the formatter fail on the attribute
  \<^verbatim>\<open>arguments\<close> of \<^verbatim>\<open>None\<close>; a known provider without arguments gives the empty object
  schema.
\<close>

theorem unknown_integration_fails:
  "format_tool (sample_env JNull (sample_response [])) (integration_tool ''post'' ''slack'' None)
     = Inl (AttributeError ''NoneType object has no attribute arguments'')
   \<and> format_tool (sample_env JNull (sample_response []))
       (integration_tool ''close'' ''browserbase'' (Some ''close_session''))
     = Inl (AttributeError ''NoneType object has no attribute arguments'')
   \<and> format_tool (sample_env JNull (sample_response [])) (integration_tool ''search'' ''brave'' None)
     = Inr (JObj [(''type'', JStr ''function''),
                  (''function'', JObj [(''name'', JStr ''search''), (''description'', JNull),
                     (''parameters'', JObj [(''type'', JStr ''object''), (''properties'', JObj []),
                                            (''required'', JList [])])])])"
  by (simp add: sample_defs step_defs)

text \<open>
  The rewriting of tool calls where the type of the original tool is a string. In a
  response that is not unwrapped, take any choice whose finish reason is \<^verbatim>\<open>tool_calls\<close>
  and any call of its list. The reverse map is the one built from the formatted tools. If
  the name of the call resolves to no tool the step fails, with the unknown tool error of
  an unresolved name whenever every such choice carries a list of calls. If the step
  returns, the name resolves to a tool: for the type function the call is the dumped call
  unchanged; for another string \<open>k\<close> the call has lost the key \<^verbatim>\<open>function\<close>, has
  \<^verbatim>\<open>type\<close> \<open>k\<close> and, under the key \<open>k\<close>, the name and the arguments, and its other keys are
  as they were. A tool whose type is \<^verbatim>\<open>None\<close> is not covered here.
\<close>

theorem tool_calls_rekeyed:
  assumes unwrap: "\<not> step_unwrap (context_current_step context)"
    and resp: "prompt_response env context = Inr (mapping, response)"
    and i: "i < length (response_choices response)"
    and fr: "choices_finish_reason (response_choices response ! i) = ''tool_calls''"
    and calls: "message_tool_calls (choices_message (response_choices response ! i)) = Some calls"
    and j: "j < length calls"
  shows "(\<exists>formatted. map_result (format_tool env) (context_tools context) = Inr formatted
            \<and> mapping = tools_mapping formatted (context_tools context))
    \<and> (map_of mapping (function_name (call_function (calls ! j))) = None \<longrightarrow>
         (\<exists>e. prompt_step env context = Inl e)
         \<and> ((\<forall>c \<in> set (response_choices response).
                choices_finish_reason c = ''tool_calls'' \<longrightarrow>
                message_tool_calls (choices_message c) \<noteq> None) \<longrightarrow>
            (\<exists>n. map_of mapping n = None
               \<and> prompt_step env context = Inl (ApplicationError (tool_not_found n)))))
    \<and> (\<forall>outcome. prompt_step env context = Inr outcome \<longrightarrow>
         (\<exists>r calls' original_tool.
            outcome = \<lparr>outcome_output = Response r, outcome_next = None\<rparr>
            \<and> length (response_choices r) = length (response_choices response)
            \<and> message_tool_calls (choices_message (response_choices r ! i)) = Some calls'
            \<and> length calls' = length calls
            \<and> map_of mapping (function_name (call_function (calls ! j))) = Some original_tool
            \<and> (env_tool_type env original_tool = Some ''function'' \<longrightarrow>
                 calls' ! j = dump_call (calls ! j))
            \<and> (\<forall>k. env_tool_type env original_tool = Some k \<and> k \<noteq> ''function''
                    \<and> k \<noteq> ''type'' \<longrightarrow>
                 map_of (calls' ! j) (Some ''function'') = None
                 \<and> map_of (calls' ! j) (Some ''type'') = Some (JStr k)
                 \<and> map_of (calls' ! j) (Some k)
                     = Some (JObj [(''name'', opt_json (function_name (call_function (calls ! j)))),
                                   (''arguments'', function_arguments (call_function (calls ! j)))])
                 \<and> (\<forall>key. key \<noteq> Some ''function'' \<and> key \<noteq> Some ''type'' \<and> key \<noteq> Some k \<longrightarrow>
                       map_of (calls' ! j) key = map_of (dump_call (calls ! j)) key))))"
proof -
  let ?cs = "response_choices response"
  let ?c = "?cs ! i"
  let ?x = "calls ! j"
  have step: "prompt_step env context
      = (case map_result (rewrite_choice env mapping) ?cs of
           Inl e \<Rightarrow> Inl e
         | Inr rewritten \<Rightarrow>
             Inr \<lparr>outcome_output =
                    Response
                      \<lparr>response_id = response_id response,
                       response_choices = rewritten,
                       response_created = response_created response,
                       response_model = response_model response,
                       response_object = response_object response\<rparr>,
                  outcome_next = None\<rparr>)"
    using unwrap resp by (simp add: prompt_step_def step_result_def)
  have c_in: "?c \<in> set ?cs" using i by simp
  have x_in: "?x \<in> set calls" using j by simp
  have A: "\<exists>formatted. map_result (format_tool env) (context_tools context) = Inr formatted
            \<and> mapping = tools_mapping formatted (context_tools context)"
    using resp by (rule prompt_response_mapping)
  have B: "(\<exists>e. prompt_step env context = Inl e)
         \<and> ((\<forall>c \<in> set ?cs. choices_finish_reason c = ''tool_calls'' \<longrightarrow>
                message_tool_calls (choices_message c) \<noteq> None) \<longrightarrow>
            (\<exists>n. map_of mapping n = None
               \<and> prompt_step env context = Inl (ApplicationError (tool_not_found n))))"
    if unknown: "map_of mapping (function_name (call_function ?x)) = None"
  proof -
    from rewrite_call_unknown [OF unknown]
    obtain e where "rewrite_call env mapping ?x = Inl e" by blast
    from rewrite_choice_fails [OF fr calls x_in this]
    obtain e' where "rewrite_choice env mapping ?c = Inl e'" by blast
    from map_result_fails [of ?c ?cs "rewrite_choice env mapping" e', OF c_in this]
    obtain e'' where fails: "map_result (rewrite_choice env mapping) ?cs = Inl e''" by blast
    then have 1: "prompt_step env context = Inl e''" by (simp add: step)
    from map_result_Inl [OF fails]
    obtain c where c: "c \<in> set ?cs" "rewrite_choice env mapping c = Inl e''" by blast
    have 2: "\<exists>n. map_of mapping n = None
               \<and> prompt_step env context = Inl (ApplicationError (tool_not_found n))"
      if wf: "\<forall>c \<in> set ?cs. choices_finish_reason c = ''tool_calls'' \<longrightarrow>
                message_tool_calls (choices_message c) \<noteq> None"
      using rewrite_choice_Inl [OF c(2)] wf c(1) 1 by auto
    from 1 2 show ?thesis by blast
  qed
  have C: "\<exists>r calls' original_tool.
            outcome = \<lparr>outcome_output = Response r, outcome_next = None\<rparr>
            \<and> length (response_choices r) = length ?cs
            \<and> message_tool_calls (choices_message (response_choices r ! i)) = Some calls'
            \<and> length calls' = length calls
            \<and> map_of mapping (function_name (call_function ?x)) = Some original_tool
            \<and> (env_tool_type env original_tool = Some ''function'' \<longrightarrow>
                 calls' ! j = dump_call ?x)
            \<and> (\<forall>k. env_tool_type env original_tool = Some k \<and> k \<noteq> ''function''
                    \<and> k \<noteq> ''type'' \<longrightarrow>
                 map_of (calls' ! j) (Some ''function'') = None
                 \<and> map_of (calls' ! j) (Some ''type'') = Some (JStr k)
                 \<and> map_of (calls' ! j) (Some k)
                     = Some (JObj [(''name'', opt_json (function_name (call_function ?x))),
                                   (''arguments'', function_arguments (call_function ?x))])
                 \<and> (\<forall>key. key \<noteq> Some ''function'' \<and> key \<noteq> Some ''type'' \<and> key \<noteq> Some k \<longrightarrow>
                       map_of (calls' ! j) key = map_of (dump_call ?x) key))"
    if ok: "prompt_step env context = Inr outcome" for outcome
  proof -
    from ok obtain rewritten where
      rw: "map_result (rewrite_choice env mapping) ?cs = Inr rewritten"
      and out: "outcome = \<lparr>outcome_output =
                    Response
                      \<lparr>response_id = response_id response,
                       response_choices = rewritten,
                       response_created = response_created response,
                       response_model = response_model response,
                       response_object = response_object response\<rparr>,
                  outcome_next = None\<rparr>"
      by (auto simp: step split: sum.splits)
    from rw have all2: "list_all2 (\<lambda>x y. rewrite_choice env mapping x = Inr y) ?cs rewritten"
      by (simp add: map_result_Inr)
    then have len: "length rewritten = length ?cs"
      by (simp add: list_all2_lengthD)
    from all2 i have "rewrite_choice env mapping ?c = Inr (rewritten ! i)"
      by (rule list_all2_nthD)
    from rewrite_choice_Inr [OF this fr calls]
    obtain calls' where calls': "message_tool_calls (choices_message (rewritten ! i)) = Some calls'"
      and all2c: "list_all2 (\<lambda>x y. rewrite_call env mapping x = Inr y) calls calls'"
      by blast
    from all2c have lenc: "length calls' = length calls"
      by (simp add: list_all2_lengthD)
    from all2c j have "rewrite_call env mapping ?x = Inr (calls' ! j)"
      by (rule list_all2_nthD)
    from rewrite_call_Inr [OF this] obtain original_tool where
      "map_of mapping (function_name (call_function ?x)) = Some original_tool
      \<and> (env_tool_type env original_tool = Some ''function'' \<longrightarrow> calls' ! j = dump_call ?x)
      \<and> (\<forall>k. env_tool_type env original_tool = Some k \<and> k \<noteq> ''function'' \<and> k \<noteq> ''type'' \<longrightarrow>
            map_of (calls' ! j) (Some ''function'') = None
            \<and> map_of (calls' ! j) (Some ''type'') = Some (JStr k)
            \<and> map_of (calls' ! j) (Some k)
                = Some (JObj [(''name'', opt_json (function_name (call_function ?x))),
                              (''arguments'', function_arguments (call_function ?x))])
            \<and> (\<forall>key. key \<noteq> Some ''function'' \<and> key \<noteq> Some ''type'' \<and> key \<noteq> Some k \<longrightarrow>
                  map_of (calls' ! j) key = map_of (dump_call ?x) key))"
      by blast
    with out len calls' lenc show ?thesis
      by (intro exI [of _ "\<lparr>response_id = response_id response,
                       response_choices = rewritten,
                       response_created = response_created response,
                       response_model = response_model response,
                       response_object = response_object response\<rparr>"]
               exI [of _ calls'] exI [of _ original_tool]) (simp, blast)
  qed
  from A B C show ?thesis by blast
qed


theorem tool_calls_rekeyed_witness:
  "prompt_step
     (sample_env JNull
        (sample_response [calls_choice [sample_call ''search'', sample_call ''calc'']]))
     (sample_context (JStr ''hello'') False
        [function_tool ''calc'', integration_tool ''search'' ''brave'' None])
     = Inr \<lparr>outcome_output =
              Response
                \<lparr>response_id = ''r1'',
                 response_choices =
                   [\<lparr>choices_message =
                       \<lparr>message_role = ''assistant'', message_content = None,
                        message_tool_calls =
                          Some [[(Some ''id'', JStr ''call_1''),
                                 (Some ''type'', JStr ''integration''),
                                 (Some ''integration'',
                                    JObj [(''name'', JStr ''search''),
                                          (''arguments'', JStr ''{}'')])],
                                [(Some ''function'',
                                    JObj [(''arguments'', JStr ''{}''),
                                          (''name'', JStr ''calc'')]),
                                 (Some ''id'', JStr ''call_1''),
                                 (Some ''type'', JStr ''function'')]]\<rparr>,
                     choices_finish_reason = ''tool_calls''\<rparr>],
                 response_created = 0, response_model = ''gpt-4o'',
                 response_object = ''chat.completion''\<rparr>,
            outcome_next = None\<rparr>
   \<and> (\<exists>n. map_of [(Some ''calc'', function_tool ''calc''),
                  (Some ''search'', integration_tool ''search'' ''brave'' None)] n = None
        \<and> prompt_step
             (sample_env JNull (sample_response [calls_choice [sample_call ''lookup'']]))
             (sample_context (JStr ''hello'') False
                [function_tool ''calc'', integration_tool ''search'' ''brave'' None])
           = Inl (ApplicationError (tool_not_found n)))"
proof -
  let ?C = "sample_context (JStr ''hello'') False
        [function_tool ''calc'', integration_tool ''search'' ''brave'' None]"
  let ?M = "[(Some ''calc'', function_tool ''calc''),
             (Some ''search'', integration_tool ''search'' ''brave'' None)]"
  let ?R = "sample_response [calls_choice [sample_call ''search'', sample_call ''calc'']]"
  let ?R' = "sample_response [calls_choice [sample_call ''lookup'']]"
  have u: "\<not> step_unwrap (context_current_step ?C)"
    by (simp add: sample_defs)
  have r: "prompt_response (sample_env JNull ?R) ?C = Inr (?M, ?R)"
    by (simp add: sample_defs step_defs)
  have r': "prompt_response (sample_env JNull ?R') ?C = Inr (?M, ?R')"
    by (simp add: sample_defs step_defs)
  have i: "0 < length (response_choices ?R)" "0 < length (response_choices ?R')"
    by (simp_all add: sample_defs)
  have fr: "choices_finish_reason (response_choices ?R ! 0) = ''tool_calls''"
    "choices_finish_reason (response_choices ?R' ! 0) = ''tool_calls''"
    by (simp_all add: sample_defs)
  have calls: "message_tool_calls (choices_message (response_choices ?R ! 0))
      = Some [sample_call ''search'', sample_call ''calc'']"
    "message_tool_calls (choices_message (response_choices ?R' ! 0))
      = Some [sample_call ''lookup'']"
    by (simp_all add: sample_defs)
  have j: "0 < length [sample_call ''search'', sample_call ''calc'']"
    "0 < length [sample_call ''lookup'']"
    by simp_all
  have run: "prompt_step (sample_env JNull ?R) ?C
     = Inr \<lparr>outcome_output =
              Response
                \<lparr>response_id = ''r1'',
                 response_choices =
                   [\<lparr>choices_message =
                       \<lparr>message_role = ''assistant'', message_content = None,
                        message_tool_calls =
                          Some [[(Some ''id'', JStr ''call_1''),
                                 (Some ''type'', JStr ''integration''),
                                 (Some ''integration'',
                                    JObj [(''name'', JStr ''search''),
                                          (''arguments'', JStr ''{}'')])],
                                [(Some ''function'',
                                    JObj [(''arguments'', JStr ''{}''),
                                          (''name'', JStr ''calc'')]),
                                 (Some ''id'', JStr ''call_1''),
                                 (Some ''type'', JStr ''function'')]]\<rparr>,
                     choices_finish_reason = ''tool_calls''\<rparr>],
                 response_created = 0, response_model = ''gpt-4o'',
                 response_object = ''chat.completion''\<rparr>,
            outcome_next = None\<rparr>"
    by (simp add: sample_defs step_defs)
  have unknown: "map_of ?M (function_name (call_function ([sample_call ''lookup''] ! 0))) = None"
    by (simp add: sample_defs)
  have wf: "\<forall>c \<in> set (response_choices ?R').
      choices_finish_reason c = ''tool_calls'' \<longrightarrow> message_tool_calls (choices_message c) \<noteq> None"
    by (simp add: sample_defs)
  from tool_calls_rekeyed [OF u r' i(2) fr(2) calls(2) j(2)] unknown wf
  have "\<exists>n. map_of ?M n = None
        \<and> prompt_step (sample_env JNull ?R') ?C = Inl (ApplicationError (tool_not_found n))"
    by blast
  with run tool_calls_rekeyed [OF u r i(1) fr(1) calls(1) j(1)] show ?thesis
    by blast
qed

text \<open>
  C2 at a failing input: the only tool is a model-native one, \<^verbatim>\<open>screen\<close> with the variant
  \<^verbatim>\<open>computer_20241022\<close>, whose derived type is \<^verbatim>\<open>None\<close>; the response has one call named
  \<^verbatim>\<open>screen\<close>. The name resolves, and the call comes back with \<^verbatim>\<open>type\<close> \<^verbatim>\<open>None\<close> and with
  the name and the arguments under the key \<^verbatim>\<open>None\<close>, not under the kind of the tool.
\<close>

theorem native_tool_call_type_None:
  "type_property (computer_tool ''screen'') = None
   \<and> prompt_response
       (sample_env JNull (sample_response [calls_choice [sample_call ''screen'']]))
       (sample_context (JStr ''hello'') False [computer_tool ''screen''])
     = Inr ([(Some ''screen'', computer_tool ''screen'')],
            sample_response [calls_choice [sample_call ''screen'']])
   \<and> prompt_step
       (sample_env JNull (sample_response [calls_choice [sample_call ''screen'']]))
       (sample_context (JStr ''hello'') False [computer_tool ''screen''])
     = Inr \<lparr>outcome_output =
              Response
                \<lparr>response_id = ''r1'',
                 response_choices =
                   [\<lparr>choices_message =
                       \<lparr>message_role = ''assistant'', message_content = None,
                        message_tool_calls =
                          Some [[(Some ''id'', JStr ''call_1''),
                                 (Some ''type'', JNull),
                                 (None,
                                    JObj [(''name'', JStr ''screen''),
                                          (''arguments'', JStr ''{}'')])]]\<rparr>,
                     choices_finish_reason = ''tool_calls''\<rparr>],
                 response_created = 0, response_model = ''gpt-4o'',
                 response_object = ''chat.completion''\<rparr>,
            outcome_next = None\<rparr>"
  by (simp add: sample_defs step_defs)

section \<open>Results about validation\<close>

text \<open>
  C7 at a failing input: the string \<^verbatim>\<open>import os\<close>, alone and as the expression of an
  evaluate step, is accepted exactly when \<^verbatim>\<open>ast.parse\<close> in its default mode returns a tree
  for it; the validator adds no check that the tree is an expression.
\<close>

theorem validation_accepts_what_parses:
  "(validate_python_expression ast_parse ''import os'' = Inr (True, []))
     = (\<exists>tree. ast_parse ''import os'' = Inr tree)
   \<and> (validate_evaluate_expressions ast_parse [(''x'', ''import os'')]
        = Inr [(''x'', ''import os'')])
     = (\<exists>tree. ast_parse ''import os'' = Inr tree)"
  by (auto simp: validate_python_expression_def validate_evaluate_expressions_def
      split: sum.splits error.splits)

end
